theory Spec2Isabelle
  imports Main
begin

section \<open>JavaScript strings\<close>

text \<open>
  A JavaScript string is modelled as a \<^typ>\<open>string\<close>. The source calls three string
  built-ins: \<^verbatim>\<open>toLowerCase\<close>, \<^verbatim>\<open>includes\<close> and \<^verbatim>\<open>trim\<close>, and once \<^verbatim>\<open>split(',')[1]\<close>.
  Lower-casing is modelled on the letters A to Z (all patterns of the source are ASCII);
  every other character is left as it is.
\<close>

definition toLowerChar :: "char \<Rightarrow> char" where
  "toLowerChar c =
     (case map_of (zip ''ABCDEFGHIJKLMNOPQRSTUVWXYZ'' ''abcdefghijklmnopqrstuvwxyz'') c of
        Some l \<Rightarrow> l
      | None \<Rightarrow> c)"

definition toLowerCase :: "string \<Rightarrow> string" where
  "toLowerCase s = map toLowerChar s"

fun startsWith :: "string \<Rightarrow> string \<Rightarrow> bool" where
  "startsWith s [] = True"
| "startsWith [] (p # ps) = False"
| "startsWith (c # cs) (p # ps) = (c = p \<and> startsWith cs ps)"

text \<open>
  \<^verbatim>\<open>s.includes(p)\<close>: \<open>p\<close> occurs in \<open>s\<close> as a contiguous substring. The name
  \<^verbatim>\<open>includes\<close> is a keyword of Isabelle, hence \<open>str_includes\<close>.
\<close>

fun str_includes :: "string \<Rightarrow> string \<Rightarrow> bool" where
  "str_includes [] p = (p = [])"
| "str_includes (c # cs) p = (startsWith (c # cs) p \<or> str_includes cs p)"

text \<open>
  The white space \<^verbatim>\<open>trim\<close> strips, among the code units below 256 that a
  \<^typ>\<open>char\<close> holds: tab, line feed, vertical tab, form feed, carriage return, space and
  the no-break space. The white space of JavaScript above 255 (U+FEFF, U+2028 and others)
  is not in the model.
\<close>

definition isWhiteSpace :: "char \<Rightarrow> bool" where
  "isWhiteSpace c =
     (c \<in> set [CHR '' '', CHR 0x09, CHR 0x0A, CHR 0x0B, CHR 0x0C, CHR 0x0D, CHR 0xA0])"

definition trim :: "string \<Rightarrow> string" where
  "trim s = rev (dropWhile isWhiteSpace (rev (dropWhile isWhiteSpace s)))"

text \<open>\<^verbatim>\<open>s.split(sep)\<close> for a one-character separator: the pieces between separators.\<close>

fun split :: "char \<Rightarrow> string \<Rightarrow> string list" where
  "split sep [] = [[]]"
| "split sep (c # cs) =
     (if c = sep then [] # split sep cs
      else (case split sep cs of
              [] \<Rightarrow> [[c]]
            | p # ps \<Rightarrow> (c # p) # ps))"

text \<open>
  A value of TypeScript type \<^verbatim>\<open>string\<close> that can be \<^verbatim>\<open>undefined\<close> at run time (an array
  read out of range) is a \<^typ>\<open>string option\<close>; \<open>truthy\<close> is the test
  \<^verbatim>\<open>if (x)\<close> on it: neither \<^verbatim>\<open>undefined\<close> nor the empty string.
\<close>

fun truthy :: "string option \<Rightarrow> bool" where
  "truthy None = False"
| "truthy (Some s) = (s \<noteq> [])"

text \<open>What a template literal prints for such a value.\<close>

fun interpolate :: "string option \<Rightarrow> string" where
  "interpolate None = ''undefined''"
| "interpolate (Some s) = s"

section \<open>Thrown values\<close>

text \<open>
  JavaScript can throw any value. The handler of \<^verbatim>\<open>generate\<close> tests
  \<^verbatim>\<open>e instanceof Error\<close> and then reads \<^verbatim>\<open>e.message\<close> only, so a thrown value is
  one of three:
  \<^item> an \<^verbatim>\<open>Error\<close> instance whose message is a string, as TypeScript declares it, with
    its name and its message;
  \<^item> an \<^verbatim>\<open>Error\<close> instance whose \<^verbatim>\<open>message\<close> is not a string and has no
    \<^verbatim>\<open>toLowerCase\<close> method (\<^verbatim>\<open>undefined\<close>, a number, a plain object), which JavaScript
    allows at run time; the model keeps its name;
  \<^item> a value that is not an \<^verbatim>\<open>Error\<close> instance, of which the model keeps the text it
    carries (the string thrown, or the \<^verbatim>\<open>message\<close> property of a plain object).
\<close>

record js_error =
  name :: string
  message :: string

datatype thrown = ErrorInstance js_error | ErrorWithoutText string | NonError string

text \<open>\<^verbatim>\<open>new Error(msg)\<close>\<close>

definition new_Error :: "string \<Rightarrow> thrown" where
  "new_Error msg = ErrorInstance \<lparr>name = ''Error'', message = msg\<rparr>"

text \<open>A \<^verbatim>\<open>TypeError\<close> the engine raises, with the engine's text.\<close>

definition new_TypeError :: "string \<Rightarrow> thrown" where
  "new_TypeError msg = ErrorInstance \<lparr>name = ''TypeError'', message = msg\<rparr>"

text \<open>
  The four failures \<^verbatim>\<open>generateContent\<close> raises itself. The specification calls the
  second one TimeoutError and the third one EmptyResultError.
\<close>

definition PollError :: thrown where
  "PollError = new_Error ''Failed to get video generation status. Please try again.''"

definition TimeoutError :: thrown where
  "TimeoutError =
     new_Error ''Video generation timed out. Please try again with a simpler prompt.''"

definition EmptyResultError :: thrown where
  "EmptyResultError =
     new_Error ''No videos were generated. The prompt may have been blocked.''"

definition FetchError :: "string \<Rightarrow> thrown" where
  "FetchError statusText = new_Error (''Failed to fetch video file: '' @ statusText)"

section \<open>The error classifier\<close>

text \<open>
  The \<^verbatim>\<open>catch\<close> block of \<^verbatim>\<open>generate\<close> computes two local variables from the thrown
  value, \<^verbatim>\<open>userFriendlyMessage\<close> and \<^verbatim>\<open>shouldOpenDialog\<close>; the specification calls the
  pair a ClassifiedError, with fields message and requiresCredentialPrompt.
\<close>

record ClassifiedError =
  userFriendlyMessage :: string
  shouldOpenDialog :: bool

definition classified :: "string \<Rightarrow> bool \<Rightarrow> ClassifiedError" where
  "classified m d = \<lparr>userFriendlyMessage = m, shouldOpenDialog = d\<rparr>"

definition credentialMessage :: string where
  "credentialMessage =
     ''Your API key appears to be invalid or lacks permissions. Please verify your key and try again.''"

definition safetyMessage :: string where
  "safetyMessage =
     ''The video could not be generated, likely because the prompt was blocked for safety reasons. Please try a different prompt.''"

definition quotaMessage :: string where
  "quotaMessage =
     ''You have exceeded your request limit for the API. Please wait a while and try again.''"

definition timeoutMessage :: string where
  "timeoutMessage =
     ''Video generation timed out. Please try again, perhaps with a simpler prompt or shorter duration.''"

definition networkMessage :: string where
  "networkMessage =
     ''A network error occurred while downloading the video. Please check your internet connection and try again.''"

definition internalMessage :: string where
  "internalMessage =
     ''The model encountered an internal error. Please try again in a few moments.''"

definition invalidArgumentMessage :: string where
  "invalidArgumentMessage =
     ''An invalid parameter was sent to the model. Please check the video settings and try again.''"

definition unexpectedMessage :: string where
  "unexpectedMessage = ''An unexpected error occurred during video generation.''"

text \<open>The \<^verbatim>\<open>if\<close> chain on the lower-cased message, in the order of the source.\<close>

definition classify_message :: "string \<Rightarrow> ClassifiedError" where
  "classify_message m =
     (let errorMessage = toLowerCase m in
      if str_includes errorMessage ''api key not valid'' \<or>
         str_includes errorMessage ''api_key_invalid'' \<or>
         str_includes errorMessage ''permission denied'' \<or>
         str_includes errorMessage ''requested entity was not found''
      then classified credentialMessage True
      else if str_includes errorMessage ''prompt may have been blocked'' \<or>
              str_includes errorMessage ''no videos were generated''
      then classified safetyMessage False
      else if str_includes errorMessage ''quota'' \<or>
              str_includes errorMessage ''rate limit''
      then classified quotaMessage False
      else if str_includes errorMessage ''video generation timed out''
      then classified timeoutMessage False
      else if str_includes errorMessage ''failed to fetch''
      then classified networkMessage False
      else if str_includes errorMessage ''internal error'' \<or>
              str_includes errorMessage ''model error''
      then classified internalMessage False
      else if str_includes errorMessage ''invalid argument''
      then classified invalidArgumentMessage False
      else classified (''An error occurred: '' @ m) False)"

text \<open>
  Lines 244 to 282. The two variables start with the text for an unexpected error and no
  dialog, and only an \<^verbatim>\<open>Error\<close> instance enters the chain. Line 248 calls
  \<^verbatim>\<open>e.message.toLowerCase()\<close>: on an \<^verbatim>\<open>Error\<close> instance whose message is not a string
  this call throws a \<^verbatim>\<open>TypeError\<close>, and no classification is made.
\<close>

datatype classify_error = MessageNotString

fun classify :: "thrown \<Rightarrow> classify_error + ClassifiedError" where
  "classify (ErrorInstance e) = Inr (classify_message (message e))"
| "classify (ErrorWithoutText n) = Inl MessageNotString"
| "classify (NonError v) = Inr (classified unexpectedMessage False)"

text \<open>
  The conditions of the seven pattern rules, each as the source writes it on the
  lower-cased message, and the condition of the fallback: none of them holds.
\<close>

definition credential_pattern :: "string \<Rightarrow> bool" where
  "credential_pattern m =
     (str_includes (toLowerCase m) ''api key not valid'' \<or>
      str_includes (toLowerCase m) ''api_key_invalid'' \<or>
      str_includes (toLowerCase m) ''permission denied'' \<or>
      str_includes (toLowerCase m) ''requested entity was not found'')"

definition safety_pattern :: "string \<Rightarrow> bool" where
  "safety_pattern m =
     (str_includes (toLowerCase m) ''prompt may have been blocked'' \<or>
      str_includes (toLowerCase m) ''no videos were generated'')"

definition quota_pattern :: "string \<Rightarrow> bool" where
  "quota_pattern m =
     (str_includes (toLowerCase m) ''quota'' \<or>
      str_includes (toLowerCase m) ''rate limit'')"

definition timeout_pattern :: "string \<Rightarrow> bool" where
  "timeout_pattern m = str_includes (toLowerCase m) ''video generation timed out''"

definition network_pattern :: "string \<Rightarrow> bool" where
  "network_pattern m = str_includes (toLowerCase m) ''failed to fetch''"

definition internal_pattern :: "string \<Rightarrow> bool" where
  "internal_pattern m =
     (str_includes (toLowerCase m) ''internal error'' \<or>
      str_includes (toLowerCase m) ''model error'')"

definition invalid_argument_pattern :: "string \<Rightarrow> bool" where
  "invalid_argument_pattern m = str_includes (toLowerCase m) ''invalid argument''"

definition matches_no_rule :: "string \<Rightarrow> bool" where
  "matches_no_rule m =
     (\<not> credential_pattern m \<and> \<not> safety_pattern m \<and> \<not> quota_pattern m \<and>
      \<not> timeout_pattern m \<and> \<not> network_pattern m \<and> \<not> internal_pattern m \<and>
      \<not> invalid_argument_pattern m)"

section \<open>Requests, operations and the page\<close>

record VideoConfig =
  aspectRatio :: string
  durationSeconds :: "int option"
  resolution :: string

text \<open>The \<^verbatim>\<open>config\<close> of a request: the three settings and \<^verbatim>\<open>numberOfVideos\<close>.\<close>

record RequestConfig = VideoConfig +
  numberOfVideos :: nat

record ImagePart =
  imageBytes :: string
  mimeType :: string

record GenerateVideosParams =
  model :: string
  prompt :: string
  config :: RequestConfig
  image :: "ImagePart option"

text \<open>
  What the remote service answers. \<^verbatim>\<open>operation.response?.generatedVideos\<close> is
  \<^verbatim>\<open>undefined\<close> when the response or its list is absent; each generated video carries
  the URI of its file. The field \<open>is_done\<close> is the \<^verbatim>\<open>done\<close> of the source, which is a
  keyword of Isabelle.
\<close>

record GeneratedVideo =
  uri :: string

record OperationResponse =
  generatedVideos :: "GeneratedVideo list option"

record Operation =
  is_done :: bool
  response :: "OperationResponse option"

record FetchResponse =
  ok :: bool
  statusText :: string
  blob :: "thrown + string"

text \<open>
  Everything outside the source file is a parameter: the environment variable, the
  host's key dialog (absent, or present and then resolving or rejecting), the two calls of
  the SDK, and the browser's \<^verbatim>\<open>parseInt\<close>, \<^verbatim>\<open>decodeURIComponent\<close>, \<^verbatim>\<open>fetch\<close> and
  \<^verbatim>\<open>URL.createObjectURL\<close>. The answer to a status request or to a download is given by
  the number of the call, so that an environment fixes the whole sequence of answers:
  \<open>getVideosOperation env k\<close> answers the \<open>k\<close>-th status request, counted from 1 as
  \<^verbatim>\<open>pollCount\<close> is. Every call settles: it returns (\<open>Inr\<close>) or throws (\<open>Inl\<close>).
  \<^verbatim>\<open>parseInt\<close> returns an integer or \<^verbatim>\<open>NaN\<close>, which is \<open>None\<close>.
  \<open>typeErrorText\<close> is the text the engine gives the \<^verbatim>\<open>TypeError\<close> of line 248.
\<close>

record env =
  API_KEY :: "string option"
  openSelectKey :: "(thrown + unit) option"
  generateVideos :: "GenerateVideosParams \<Rightarrow> thrown + Operation"
  getVideosOperation :: "nat \<Rightarrow> thrown + Operation"
  parseInt :: "string \<Rightarrow> int option"
  decodeURIComponent :: "string \<Rightarrow> thrown + string"
  fetch :: "nat \<Rightarrow> string \<Rightarrow> thrown + FetchResponse"
  createObjectURL :: "string \<Rightarrow> string"
  typeErrorText :: string

text \<open>The status element is written through \<^verbatim>\<open>innerText\<close> or through \<^verbatim>\<open>innerHTML\<close>.\<close>

datatype status = InnerText string | InnerHTML string

text \<open>
  The calls that leave the page, in the order they are made. A status request records
  the operation it was made with, and the opening of the host's key dialog records what
  the status element shows at that moment.
\<close>

datatype event =
    ConsoleLog string
  | ConsoleError string thrown
  | Delay nat
  | GenerateVideos GenerateVideosParams
  | GetVideosOperation Operation
  | Fetch string
  | OpenSelectKey status

text \<open>
  The two module variables (\<^verbatim>\<open>base64data\<close>, \<^verbatim>\<open>prompt\<close>), the properties of the DOM
  elements the source reads or writes, and the trace of events.
\<close>

record page =
  base64data :: "string option"
  promptVar :: string
  statusEl :: status
  fileNameEl_textContent :: string
  imgPreview_src :: string
  imgPreview_display :: string
  promptEl_value :: string
  aspectRatioSelect_value :: string
  durationSlider_value :: string
  durationValueEl_textContent :: string
  resolutionSelect_value :: string
  video_src :: string
  downloadButton_href :: string
  videoContainer_display :: string
  generateButton_disabled :: bool
  upload_disabled :: bool
  promptEl_disabled :: bool
  aspectRatioSelect_disabled :: bool
  durationSlider_disabled :: bool
  resolutionSelect_disabled :: bool
  trace :: "event list"

definition notAvailableMessage :: string where
  "notAvailableMessage =
     ''API key selection is not available. Please configure the API_KEY environment variable.''"

text \<open>What \<^verbatim>\<open>showStatusError\<close> writes into the status element for a message.\<close>

definition errorSpan :: "string \<Rightarrow> status" where
  \<open>errorSpan msg = InnerHTML (''<span class="text-red-400">'' @ msg @ ''</span>'')\<close>

definition emit :: "event \<Rightarrow> page \<Rightarrow> page" where
  "emit ev s = s\<lparr>trace := trace s @ [ev]\<rparr>"

definition showStatusError :: "string \<Rightarrow> page \<Rightarrow> page" where
  \<open>showStatusError msg s =
     s\<lparr>statusEl := InnerHTML (''<span class="text-red-400">'' @ msg @ ''</span>'')\<rparr>\<close>

definition setControlsDisabled :: "bool \<Rightarrow> page \<Rightarrow> page" where
  "setControlsDisabled disabled s =
     s\<lparr>generateButton_disabled := disabled,
       upload_disabled := disabled,
       promptEl_disabled := disabled,
       aspectRatioSelect_disabled := disabled,
       durationSlider_disabled := disabled,
       resolutionSelect_disabled := disabled\<rparr>"

text \<open>
  \<^verbatim>\<open>openApiKeyDialog\<close>: the host's dialog when the host offers one, otherwise a status
  message. A dialog the host rejects makes the call throw.
\<close>

definition openApiKeyDialog :: "env \<Rightarrow> page \<Rightarrow> (thrown + unit) \<times> page" where
  "openApiKeyDialog E s =
     (case openSelectKey E of
        Some outcome \<Rightarrow> (outcome, emit (OpenSelectKey (statusEl s)) s)
      | None \<Rightarrow>
          (Inr (),
           showStatusError
             ''API key selection is not available. Please configure the API_KEY environment variable.''
             s))"

section \<open>The request orchestrator\<close>

text \<open>Lines 78 to 94 of \<^verbatim>\<open>generateContent\<close>: the request, with the image when there is one.\<close>

definition build_params :: "string \<Rightarrow> string option \<Rightarrow> VideoConfig \<Rightarrow> GenerateVideosParams" where
  "build_params prompt0 imageBytes0 config0 =
     (let params =
        \<lparr>model = ''veo-2.0-generate-001'',
         prompt = prompt0,
         config =
           \<lparr>aspectRatio = aspectRatio config0,
            durationSeconds = durationSeconds config0,
            resolution = resolution config0,
            numberOfVideos = 1\<rparr>,
         image = None\<rparr>
      in case imageBytes0 of
           None \<Rightarrow> params
         | Some b \<Rightarrow>
             if b \<noteq> []
             then params\<lparr>image := Some \<lparr>imageBytes = b, mimeType = ''image/png''\<rparr>\<rparr>
             else params)"

definition maxPolls :: nat where
  "maxPolls = 20"

text \<open>
  The \<^verbatim>\<open>while\<close> loop of lines 102 to 114. It returns the operation and the poll count
  it stops with, or the error thrown in it.
\<close>

function poll_loop ::
  "env \<Rightarrow> Operation \<Rightarrow> nat \<Rightarrow> page \<Rightarrow> (thrown + Operation \<times> nat) \<times> page" where
  "poll_loop E operation pollCount s =
     (if \<not> is_done operation \<and> pollCount < maxPolls
      then
        (let s1 = emit (ConsoleLog ''Waiting for completion'') s;
             s2 = emit (Delay 10000) s1;
             s3 = emit (GetVideosOperation operation) s2
         in case getVideosOperation E (pollCount + 1) of
              Inr operation' \<Rightarrow> poll_loop E operation' (pollCount + 1) s3
            | Inl e \<Rightarrow>
                (Inl PollError,
                 emit (ConsoleError ''Error polling for operation status:'' e) s3))
      else (Inr (operation, pollCount), s))"
  by pat_completeness auto
termination
  by (relation "measure (\<lambda>(E, operation, pollCount, s). maxPolls - pollCount)") auto

text \<open>Lines 100 to 120: the loop, then the test that it did not stop on the poll limit.\<close>

definition await_completion :: "env \<Rightarrow> Operation \<Rightarrow> page \<Rightarrow> (thrown + Operation) \<times> page" where
  "await_completion E operation s =
     (case poll_loop E operation 0 s of
        (Inl e, s') \<Rightarrow> (Inl e, s')
      | (Inr (operation', pollCount), s') \<Rightarrow>
          if \<not> is_done operation' then (Inl TimeoutError, s')
          else (Inr operation', s'))"

text \<open>Lines 122 to 127: the list of results, which must be there and not empty.\<close>

definition result_videos :: "Operation \<Rightarrow> GeneratedVideo list option" where
  "result_videos operation =
     (case response operation of
        None \<Rightarrow> None
      | Some r \<Rightarrow> generatedVideos r)"

definition checked_videos :: "Operation \<Rightarrow> thrown + GeneratedVideo list" where
  "checked_videos operation =
     (case result_videos operation of
        None \<Rightarrow> Inl EmptyResultError
      | Some videos \<Rightarrow> if length videos = 0 then Inl EmptyResultError else Inr videos)"

text \<open>
  Lines 131 to 144: each video is fetched and installed in turn; \<open>i\<close> counts the
  downloads made so far.
\<close>

fun download :: "env \<Rightarrow> string \<Rightarrow> GeneratedVideo list \<Rightarrow> nat \<Rightarrow> page \<Rightarrow> (thrown + unit) \<times> page" where
  "download E apiKey [] i s = (Inr (), s)"
| "download E apiKey (v # vs) i s =
     (case decodeURIComponent E (uri v) of
        Inl e \<Rightarrow> (Inl e, s)
      | Inr url \<Rightarrow>
          (let s1 = emit (Fetch (url @ ''&key='' @ apiKey)) s
           in case fetch E i (url @ ''&key='' @ apiKey) of
                Inl e \<Rightarrow> (Inl e, s1)
              | Inr res \<Rightarrow>
                  if \<not> ok res then (Inl (FetchError (statusText res)), s1)
                  else (case blob res of
                          Inl e \<Rightarrow> (Inl e, s1)
                        | Inr b \<Rightarrow>
                            (let objectURL = createObjectURL E b;
                                 s2 = s1\<lparr>video_src := objectURL,
                                         downloadButton_href := objectURL,
                                         videoContainer_display := ''block''\<rparr>;
                                 s3 = emit (ConsoleLog ''Video is ready for playback and download.'') s2
                             in download E apiKey vs (i + 1) s3))))"

definition generateContent ::
  "env \<Rightarrow> string \<Rightarrow> string option \<Rightarrow> string \<Rightarrow> VideoConfig \<Rightarrow> page \<Rightarrow> (thrown + unit) \<times> page" where
  "generateContent E prompt0 imageBytes0 apiKey config0 s =
     (let params = build_params prompt0 imageBytes0 config0;
          s1 = emit (GenerateVideos params) s
      in case generateVideos E params of
           Inl e \<Rightarrow> (Inl e, s1)
         | Inr operation \<Rightarrow>
             (case await_completion E operation (s1\<lparr>statusEl := InnerText ''Generating...''\<rparr>) of
                (Inl e, s2) \<Rightarrow> (Inl e, s2)
              | (Inr operation', s2) \<Rightarrow>
                  (case checked_videos operation' of
                     Inl e \<Rightarrow> (Inl e, s2)
                   | Inr videos \<Rightarrow>
                       download E apiKey videos 0
                         (s2\<lparr>statusEl := InnerText ''Downloading video...''\<rparr>))))"

section \<open>The attempt and the event listeners\<close>

text \<open>
  The \<^verbatim>\<open>catch\<close> block of \<^verbatim>\<open>generate\<close>, lines 242 to 288. When line 248 throws, the
  block ends there, after the console message, with the engine's \<^verbatim>\<open>TypeError\<close>.
\<close>

definition generate_catch :: "env \<Rightarrow> thrown \<Rightarrow> page \<Rightarrow> (thrown + unit) \<times> page" where
  "generate_catch E e s =
     (let s1 = emit (ConsoleError ''Video generation failed:'' e) s
      in case classify e of
           Inl MessageNotString \<Rightarrow> (Inl (new_TypeError (typeErrorText E)), s1)
         | Inr c \<Rightarrow>
             (let s2 = showStatusError (userFriendlyMessage c) s1
              in if shouldOpenDialog c then openApiKeyDialog E s2 else (Inr (), s2)))"

text \<open>
  \<^verbatim>\<open>generate\<close> after its guard on the API key, lines 229 to 291. The \<^verbatim>\<open>finally\<close> block
  runs whatever the \<^verbatim>\<open>try\<close> and the \<^verbatim>\<open>catch\<close> blocks did, also when the \<^verbatim>\<open>catch\<close>
  block throws; the result is then the thrown value.
\<close>

definition read_videoConfig :: "env \<Rightarrow> page \<Rightarrow> VideoConfig" where
  "read_videoConfig E s =
     \<lparr>aspectRatio = aspectRatioSelect_value s,
      durationSeconds = parseInt E (durationSlider_value s),
      resolution = resolutionSelect_value s\<rparr>"

definition generate_attempt :: "env \<Rightarrow> string \<Rightarrow> page \<Rightarrow> (thrown + unit) \<times> page" where
  "generate_attempt E apiKey s =
     (let videoConfig = read_videoConfig E s;
          s1 = s\<lparr>statusEl := InnerText ''Initializing video generation...''\<rparr>;
          s2 = s1\<lparr>videoContainer_display := ''none''\<rparr>;
          s3 = setControlsDisabled True s2;
          (r, s4) =
            (case generateContent E (promptVar s3) (base64data s3) apiKey videoConfig s3 of
               (Inr u, s') \<Rightarrow>
                 (Inr (), s'\<lparr>statusEl := InnerText ''Video generated successfully.''\<rparr>)
             | (Inl e, s') \<Rightarrow> generate_catch E e s')
      in (r, setControlsDisabled False s4))"

definition generate_no_key :: "env \<Rightarrow> page \<Rightarrow> (thrown + unit) \<times> page" where
  "generate_no_key E s =
     openApiKeyDialog E
       (showStatusError ''API key is not configured. Please add your API key.'' s)"

definition generate :: "env \<Rightarrow> page \<Rightarrow> (thrown + unit) \<times> page" where
  "generate E s =
     (case API_KEY E of
        None \<Rightarrow> generate_no_key E s
      | Some apiKey \<Rightarrow>
          if apiKey = [] then generate_no_key E s else generate_attempt E apiKey s)"

text \<open>
  The uploaded file: its name, its MIME type and the Base64 text of its contents.
  \<^verbatim>\<open>FileReader.readAsDataURL\<close> gives the data URL made of the last two.
\<close>

record File =
  file_name :: string
  file_type :: string
  file_base64 :: string

definition readAsDataURL :: "File \<Rightarrow> string" where
  "readAsDataURL f = ''data:'' @ file_type f @ '';base64,'' @ file_base64 f"

definition blobToBase64 :: "File \<Rightarrow> string option" where
  "blobToBase64 f =
     (case split CHR '','' (readAsDataURL f) of
        p # q # ps \<Rightarrow> Some q
      | _ \<Rightarrow> None)"

text \<open>The \<^verbatim>\<open>change\<close> listener of the file input, with the first selected file if any.\<close>

definition upload_change :: "File option \<Rightarrow> page \<Rightarrow> page" where
  "upload_change file s =
     (case file of
        Some f \<Rightarrow>
          (let s1 = s\<lparr>fileNameEl_textContent := file_name f\<rparr>;
               s2 = s1\<lparr>base64data := blobToBase64 f\<rparr>;
               s3 = s2\<lparr>imgPreview_src := ''data:image/png;base64,'' @ interpolate (base64data s2)\<rparr>
           in s3\<lparr>imgPreview_display := ''block''\<rparr>)
      | None \<Rightarrow>
          (let s1 = s\<lparr>fileNameEl_textContent := ''No file chosen''\<rparr>;
               s2 = s1\<lparr>base64data := Some []\<rparr>
           in s2\<lparr>imgPreview_display := ''none''\<rparr>))"

text \<open>The \<^verbatim>\<open>input\<close> listeners of the prompt field and of the duration slider.\<close>

definition prompt_input :: "string \<Rightarrow> page \<Rightarrow> page" where
  "prompt_input v s = (s\<lparr>promptEl_value := v\<rparr>)\<lparr>promptVar := v\<rparr>"

definition duration_input :: "string \<Rightarrow> page \<Rightarrow> page" where
  "duration_input v s = (s\<lparr>durationSlider_value := v\<rparr>)\<lparr>durationValueEl_textContent := v\<rparr>"

text \<open>The \<^verbatim>\<open>click\<close> listener of the generate button.\<close>

definition generate_click :: "env \<Rightarrow> page \<Rightarrow> (thrown + unit) \<times> page" where
  "generate_click E s =
     (if trim (promptVar s) = []
      then (Inr (), showStatusError ''Please enter a prompt to generate a video.'' s)
      else generate E s)"

section \<open>Observations on a run\<close>

text \<open>The requests submitted so far, in order.\<close>

fun requests :: "event list \<Rightarrow> GenerateVideosParams list" where
  "requests [] = []"
| "requests (GenerateVideos p # evs) = p # requests evs"
| "requests (ev # evs) = requests evs"

definition submitted :: "page \<Rightarrow> GenerateVideosParams list" where
  "submitted s = requests (trace s)"

text \<open>
  The events of one round of the poll loop, made with operation \<open>operation\<close>, and the
  events of the rounds \<open>c\<close>, ..., \<open>k - 1\<close> when round \<open>j\<close> is made with \<open>ops j\<close>.
\<close>

definition poll_round :: "Operation \<Rightarrow> event list" where
  "poll_round operation =
     [ConsoleLog ''Waiting for completion'', Delay 10000, GetVideosOperation operation]"

definition poll_rounds :: "(nat \<Rightarrow> Operation) \<Rightarrow> nat \<Rightarrow> nat \<Rightarrow> event list" where
  "poll_rounds ops c k = concat (map (\<lambda>j. poll_round (ops j)) [c..<k])"

text \<open>The number of status requests and the waits in a trace.\<close>

fun status_requests :: "event list \<Rightarrow> nat" where
  "status_requests [] = 0"
| "status_requests (GetVideosOperation operation # evs) = Suc (status_requests evs)"
| "status_requests (ev # evs) = status_requests evs"

fun waits :: "event list \<Rightarrow> nat list" where
  "waits [] = []"
| "waits (Delay ms # evs) = ms # waits evs"
| "waits (ev # evs) = waits evs"

text \<open>The six input controls are all enabled.\<close>

definition controls_enabled :: "page \<Rightarrow> bool" where
  "controls_enabled s =
     (\<not> generateButton_disabled s \<and> \<not> upload_disabled s \<and> \<not> promptEl_disabled s \<and>
      \<not> aspectRatioSelect_disabled s \<and> \<not> durationSlider_disabled s \<and>
      \<not> resolutionSelect_disabled s)"

section \<open>Example inputs\<close>

text \<open>
  A page with nothing entered and every control enabled, a pending and a finished
  operation, and an environment with an API key and a host dialog in which every status
  request answers that the operation is still pending.
\<close>

definition blank_page :: page where
  "blank_page =
     \<lparr>base64data = Some [], promptVar = [], statusEl = InnerText [],
      fileNameEl_textContent = [], imgPreview_src = [], imgPreview_display = ''none'',
      promptEl_value = [], aspectRatioSelect_value = ''16:9'', durationSlider_value = ''5'',
      durationValueEl_textContent = ''5'', resolutionSelect_value = ''720p'',
      video_src = [], downloadButton_href = [], videoContainer_display = ''none'',
      generateButton_disabled = False, upload_disabled = False, promptEl_disabled = False,
      aspectRatioSelect_disabled = False, durationSlider_disabled = False,
      resolutionSelect_disabled = False, trace = []\<rparr>"

definition pending :: Operation where
  "pending = \<lparr>is_done = False, response = None\<rparr>"

definition finished :: "GeneratedVideo list \<Rightarrow> Operation" where
  "finished vs = \<lparr>is_done = True, response = Some \<lparr>generatedVideos = Some vs\<rparr>\<rparr>"

definition slow_env :: env where
  "slow_env =
     \<lparr>API_KEY = Some ''KEY'',
      openSelectKey = Some (Inr ()),
      generateVideos = (\<lambda>p. Inr pending),
      getVideosOperation = (\<lambda>k. Inr pending),
      parseInt = (\<lambda>v. Some 5),
      decodeURIComponent = (\<lambda>u. Inr u),
      fetch = (\<lambda>i u. Inr \<lparr>ok = True, statusText = ''OK'', blob = Inr ''blob''\<rparr>),
      createObjectURL = (\<lambda>b. ''blob:'' @ b),
      typeErrorText = ''e.message.toLowerCase is not a function''\<rparr>"

section \<open>Properties of the error classifier\<close>

text \<open>The \<^verbatim>\<open>if\<close> chain, read as seven rules tried in order and a fallback.\<close>

lemmas pattern_defs =
  credential_pattern_def safety_pattern_def quota_pattern_def timeout_pattern_def
  network_pattern_def internal_pattern_def invalid_argument_pattern_def

lemma classify_message_rules:
  "classify_message m =
     (if credential_pattern m then classified credentialMessage True
      else if safety_pattern m then classified safetyMessage False
      else if quota_pattern m then classified quotaMessage False
      else if timeout_pattern m then classified timeoutMessage False
      else if network_pattern m then classified networkMessage False
      else if internal_pattern m then classified internalMessage False
      else if invalid_argument_pattern m then classified invalidArgumentMessage False
      else classified (''An error occurred: '' @ m) False)"
  unfolding classify_message_def pattern_defs Let_def by simp

text \<open>\<open>str_includes\<close> is the substring relation.\<close>

lemma startsWith_iff: "startsWith s p \<longleftrightarrow> (\<exists>ss. s = p @ ss)"
  by (induction s p rule: startsWith.induct) auto

lemma str_includes_iff: "str_includes s p \<longleftrightarrow> (\<exists>ps ss. s = ps @ p @ ss)"
proof (induction s)
  case Nil
  then show ?case by auto
next
  case (Cons c cs)
  have "(\<exists>ps ss. c # cs = ps @ p @ ss) \<longleftrightarrow>
        (\<exists>ss. c # cs = p @ ss) \<or> (\<exists>ps ss. cs = ps @ p @ ss)"
  proof
    assume "\<exists>ps ss. c # cs = ps @ p @ ss"
    then obtain ps ss where e: "c # cs = ps @ p @ ss" by blast
    show "(\<exists>ss. c # cs = p @ ss) \<or> (\<exists>ps ss. cs = ps @ p @ ss)"
    proof (cases ps)
      case Nil
      then show ?thesis using e by auto
    next
      case (Cons q qs)
      then have "cs = qs @ p @ ss" using e by simp
      then show ?thesis by blast
    qed
  next
    assume "(\<exists>ss. c # cs = p @ ss) \<or> (\<exists>ps ss. cs = ps @ p @ ss)"
    then show "\<exists>ps ss. c # cs = ps @ p @ ss"
    proof
      assume "\<exists>ss. c # cs = p @ ss"
      then obtain ss where "c # cs = [] @ p @ ss" by auto
      then show ?thesis by blast
    next
      assume "\<exists>ps ss. cs = ps @ p @ ss"
      then obtain ps ss where "c # cs = (c # ps) @ p @ ss" by auto
      then show ?thesis by blast
    qed
  qed
  then show ?case
    using Cons.IH by (simp add: startsWith_iff)
qed

lemma lower_eval: "toLowerCase [] = []" "toLowerCase (c # cs) = toLowerChar c # toLowerCase cs"
  by (simp_all add: toLowerCase_def)

lemma startsWith_refl: "startsWith s s"
  by (induction s) auto

lemma str_includes_refl: "str_includes s s"
  by (cases s) (auto simp: startsWith_refl)

lemma str_includes_append: "str_includes (p @ s) s"
  by (induction p) (auto simp: str_includes_refl)

lemma openApiKeyDialog_host:
  "openSelectKey E = Some r \<Longrightarrow>
     openApiKeyDialog E s = (r, s\<lparr>trace := trace s @ [OpenSelectKey (statusEl s)]\<rparr>)"
  by (simp add: openApiKeyDialog_def emit_def)

lemma openApiKeyDialog_no_host:
  "openSelectKey E = None \<Longrightarrow>
     openApiKeyDialog E s = (Inr (), s\<lparr>statusEl := errorSpan notAvailableMessage\<rparr>)"
  by (simp add: openApiKeyDialog_def showStatusError_def errorSpan_def notAvailableMessage_def)

lemma lower_key_not_valid: "toLowerCase ''API key not valid'' = ''api key not valid''"
  by (simp add: lower_eval toLowerChar_def)

lemma credential_key_not_valid: "credential_pattern ''API key not valid''"
  unfolding credential_pattern_def lower_key_not_valid by simp

text \<open>
  Claim C2, as stated: every message that contains a quota or rate-limit pattern and the
  invalid-argument pattern is classified as the quota message. The message below contains
  both, and a credential pattern as well; the credential rule comes first and wins.
\<close>

theorem quota_priority_counterexample:
  "quota_pattern ''quota: invalid argument: API key not valid'' \<and>
   invalid_argument_pattern ''quota: invalid argument: API key not valid'' \<and>
   classify (new_Error ''quota: invalid argument: API key not valid'')
     = Inr (classified credentialMessage True) \<and>
   classify (new_Error ''quota: invalid argument: API key not valid'')
     \<noteq> Inr (classified quotaMessage False)"
proof -
  have l: "toLowerCase ''quota: invalid argument: API key not valid''
             = ''quota: invalid argument: api key not valid''"
    by (simp add: lower_eval toLowerChar_def)
  have q: "quota_pattern ''quota: invalid argument: API key not valid''"
    unfolding quota_pattern_def l by simp
  have i: "invalid_argument_pattern ''quota: invalid argument: API key not valid''"
    unfolding invalid_argument_pattern_def l by simp
  have c: "credential_pattern ''quota: invalid argument: API key not valid''"
    unfolding credential_pattern_def l by simp
  show ?thesis
    using q i c by (simp add: new_Error_def classify_message_rules classified_def)
qed

text \<open>
  Claim C2, amended: an \<^verbatim>\<open>Error\<close> whose message contains, case-insensitively, a quota or
  rate-limit pattern and the invalid-argument pattern is classified, and never as the
  invalid-parameter message; it is classified as the quota message when its message
  contains none of the credential patterns (rule 1) and none of the safety-block patterns
  (rule 2), which come before the quota rule.
\<close>

theorem quota_before_invalid_argument:
  assumes "quota_pattern (message e)" and "invalid_argument_pattern (message e)"
  shows "(\<exists>c. classify (ErrorInstance e) = Inr c \<and>
              c \<noteq> classified invalidArgumentMessage False \<and>
              userFriendlyMessage c \<noteq> invalidArgumentMessage) \<and>
         (\<not> credential_pattern (message e) \<and> \<not> safety_pattern (message e) \<longrightarrow>
            classify (ErrorInstance e) = Inr (classified quotaMessage False))"
  using assms
  by (simp add: classify_message_rules classified_def credentialMessage_def safetyMessage_def
      quotaMessage_def invalidArgumentMessage_def)

theorem quota_before_invalid_argument_witness:
  "quota_pattern ''Quota exceeded (invalid argument)'' \<and>
   invalid_argument_pattern ''Quota exceeded (invalid argument)'' \<and>
   classify (new_Error ''Quota exceeded (invalid argument)'')
     = Inr (classified quotaMessage False)"
proof -
  have l: "toLowerCase ''Quota exceeded (invalid argument)''
             = ''quota exceeded (invalid argument)''"
    by (simp add: lower_eval toLowerChar_def)
  have q: "quota_pattern ''Quota exceeded (invalid argument)''"
    unfolding quota_pattern_def l by simp
  have i: "invalid_argument_pattern ''Quota exceeded (invalid argument)''"
    unfolding invalid_argument_pattern_def l by simp
  have c: "\<not> credential_pattern ''Quota exceeded (invalid argument)''"
    unfolding credential_pattern_def l by simp
  have b: "\<not> safety_pattern ''Quota exceeded (invalid argument)''"
    unfolding safety_pattern_def l by simp
  show ?thesis
    using quota_before_invalid_argument
            [of "\<lparr>name = ''Error'', message = ''Quota exceeded (invalid argument)''\<rparr>"]
          q i c b
    by (simp add: new_Error_def)
qed

text \<open>
  Claim C3, as stated: for every error with a credential pattern in its message the
  interactive key dialog is opened after the credential message is shown. In the
  environment below the host offers no key dialog (\<^verbatim>\<open>window.aistudio\<close> is absent): the
  handler opens no dialog, and the status element ends with the text that key selection
  is not available, not with the credential message.
\<close>

theorem credential_dialog_counterexample:
  "credential_pattern ''API key not valid'' \<and>
   openSelectKey (slow_env\<lparr>openSelectKey := None\<rparr>) = None \<and>
   trace (snd (generate_catch (slow_env\<lparr>openSelectKey := None\<rparr>)
                 (new_Error ''API key not valid'') blank_page)) =
     [ConsoleError ''Video generation failed:'' (new_Error ''API key not valid'')] \<and>
   statusEl (snd (generate_catch (slow_env\<lparr>openSelectKey := None\<rparr>)
                    (new_Error ''API key not valid'') blank_page)) =
     errorSpan notAvailableMessage \<and>
   errorSpan notAvailableMessage \<noteq> errorSpan credentialMessage"
proof -
  have c: "classify (new_Error ''API key not valid'') = Inr (classified credentialMessage True)"
    using credential_key_not_valid by (simp add: new_Error_def classify_message_rules)
  have g: "generate_catch (slow_env\<lparr>openSelectKey := None\<rparr>)
             (new_Error ''API key not valid'') blank_page =
           (Inr (),
            blank_page
              \<lparr>trace := [ConsoleError ''Video generation failed:'' (new_Error ''API key not valid'')],
               statusEl := errorSpan notAvailableMessage\<rparr>)"
    unfolding generate_catch_def Let_def c
    by (simp add: classified_def openApiKeyDialog_no_host showStatusError_def emit_def
        blank_page_def)
  have d: "errorSpan notAvailableMessage \<noteq> errorSpan credentialMessage"
    by (simp add: errorSpan_def notAvailableMessage_def credentialMessage_def)
  show ?thesis
    using credential_key_not_valid g d by simp
qed

text \<open>
  Claim C3, amended: an \<^verbatim>\<open>Error\<close> whose message contains, case-insensitively, one of the
  four credential patterns is classified as the invalid-key message with the dialog flag
  set. The handler then shows this message and calls \<^verbatim>\<open>openApiKeyDialog\<close>. When the host
  offers a key dialog, the dialog is opened while the status element shows the message,
  the message stays, and the handler ends as the dialog does. When the host offers none,
  no dialog is opened and the status element ends with the text that key selection is not
  available.
\<close>

theorem credential_error_prompts:
  assumes "credential_pattern (message e)"
  shows "classify (ErrorInstance e) = Inr (classified credentialMessage True) \<and>
         (\<forall>r. openSelectKey E = Some r \<longrightarrow>
            generate_catch E (ErrorInstance e) s =
              (r, s\<lparr>trace := trace s @
                        [ConsoleError ''Video generation failed:'' (ErrorInstance e),
                         OpenSelectKey (errorSpan credentialMessage)],
                     statusEl := errorSpan credentialMessage\<rparr>)) \<and>
         (openSelectKey E = None \<longrightarrow>
            generate_catch E (ErrorInstance e) s =
              (Inr (),
               s\<lparr>trace := trace s @ [ConsoleError ''Video generation failed:'' (ErrorInstance e)],
                 statusEl := errorSpan notAvailableMessage\<rparr>))"
proof -
  have c: "classify (ErrorInstance e) = Inr (classified credentialMessage True)"
    using assms by (simp add: classify_message_rules)
  have g: "generate_catch E (ErrorInstance e) s =
           openApiKeyDialog E
             (s\<lparr>trace := trace s @ [ConsoleError ''Video generation failed:'' (ErrorInstance e)],
                statusEl := errorSpan credentialMessage\<rparr>)"
    unfolding generate_catch_def Let_def c
    by (simp add: classified_def showStatusError_def emit_def errorSpan_def)
  show ?thesis
    unfolding g using c
    by (simp add: openApiKeyDialog_host openApiKeyDialog_no_host)
qed

theorem credential_error_prompts_witness:
  "credential_pattern ''API key not valid'' \<and>
   openSelectKey slow_env = Some (Inr ()) \<and>
   classify (new_Error ''API key not valid'') = Inr (classified credentialMessage True) \<and>
   generate_catch slow_env (new_Error ''API key not valid'') blank_page =
     (Inr (),
      blank_page
        \<lparr>trace := [ConsoleError ''Video generation failed:'' (new_Error ''API key not valid''),
                   OpenSelectKey (errorSpan credentialMessage)],
         statusEl := errorSpan credentialMessage\<rparr>)"
proof -
  have h: "openSelectKey slow_env = Some (Inr ())"
    by (simp add: slow_env_def)
  have t: "trace blank_page = []"
    by (simp add: blank_page_def)
  show ?thesis
    using credential_error_prompts
            [of "\<lparr>name = ''Error'', message = ''API key not valid''\<rparr>" slow_env blank_page]
          credential_key_not_valid h t
    by (simp add: new_Error_def)
qed

text \<open>
  Claim C7, as stated: the classifier yields a classification for every thrown value of
  any shape and never throws. An \<^verbatim>\<open>Error\<close> instance whose message is not a string passes
  the test of line 247, and line 248 throws on it: no classification is made, and the
  handler ends with the \<^verbatim>\<open>TypeError\<close> instead of showing a message.
\<close>

theorem classify_throws_counterexample:
  "classify (ErrorWithoutText ''Error'') = Inl MessageNotString \<and>
   generate_catch slow_env (ErrorWithoutText ''Error'') blank_page =
     (Inl (new_TypeError ''e.message.toLowerCase is not a function''),
      blank_page\<lparr>trace := [ConsoleError ''Video generation failed:'' (ErrorWithoutText ''Error'')]\<rparr>)"
  by (simp add: generate_catch_def slow_env_def emit_def blank_page_def)

text \<open>
  Claim C7, amended: every thrown value that is not an \<^verbatim>\<open>Error\<close> instance, and every
  \<^verbatim>\<open>Error\<close> instance whose message is a string, has exactly one classification, made
  without throwing. For the \<^verbatim>\<open>Error\<close> instance it is the one of the first of the seven
  rules its message matches, and the fallback when it matches none, so that two such errors
  with the same message are classified alike whatever else differs; for the other value
  it is the fixed text for an unexpected error with no dialog.
\<close>

theorem classify_total_deterministic:
  "(\<exists>!c. classify (ErrorInstance e) = Inr c) \<and>
   (\<exists>!c. classify (NonError v) = Inr c) \<and>
   classify (ErrorInstance e) =
     Inr (if credential_pattern (message e) then classified credentialMessage True
          else if safety_pattern (message e) then classified safetyMessage False
          else if quota_pattern (message e) then classified quotaMessage False
          else if timeout_pattern (message e) then classified timeoutMessage False
          else if network_pattern (message e) then classified networkMessage False
          else if internal_pattern (message e) then classified internalMessage False
          else if invalid_argument_pattern (message e)
            then classified invalidArgumentMessage False
          else classified (''An error occurred: '' @ message e) False) \<and>
   (\<forall>e'. message e' = message e \<longrightarrow> classify (ErrorInstance e') = classify (ErrorInstance e)) \<and>
   classify (NonError v) = Inr (classified unexpectedMessage False)"
  by (simp add: classify_message_rules)

theorem classify_total_deterministic_witness:
  "classify (ErrorInstance \<lparr>name = ''TypeError'', message = ''Failed to fetch''\<rparr>) =
     Inr (classified networkMessage False) \<and>
   classify (ErrorInstance \<lparr>name = ''Error'', message = ''Failed to fetch''\<rparr>) =
     Inr (classified networkMessage False) \<and>
   classify (NonError ''Failed to fetch'') = Inr (classified unexpectedMessage False)"
proof -
  have l: "toLowerCase ''Failed to fetch'' = ''failed to fetch''"
    by (simp add: lower_eval toLowerChar_def)
  have p: "\<not> credential_pattern ''Failed to fetch''" "\<not> safety_pattern ''Failed to fetch''"
    "\<not> quota_pattern ''Failed to fetch''" "\<not> timeout_pattern ''Failed to fetch''"
    "network_pattern ''Failed to fetch''"
    unfolding pattern_defs l by simp_all
  show ?thesis
    using classify_total_deterministic
            [of "\<lparr>name = ''Error'', message = ''Failed to fetch''\<rparr>" "''Failed to fetch''"]
          classify_total_deterministic
            [of "\<lparr>name = ''TypeError'', message = ''Failed to fetch''\<rparr>" "''Failed to fetch''"]
          p
    by simp
qed

text \<open>
  Claim C8, as stated: the fallback passes the raw message through for every thrown
  value, also one that is not an \<^verbatim>\<open>Error\<close> instance. The thrown string below matches no
  pattern, and the message shown does not contain it.
\<close>

theorem fallback_counterexample:
  "matches_no_rule ''boom'' \<and>
   classify (NonError ''boom'') = Inr (classified unexpectedMessage False) \<and>
   \<not> str_includes (userFriendlyMessage (classified unexpectedMessage False)) ''boom''"
  by (simp add: matches_no_rule_def pattern_defs lower_eval toLowerChar_def
      classified_def unexpectedMessage_def)

text \<open>
  Claim C8, amended: for an \<^verbatim>\<open>Error\<close> instance whose message matches none of the seven
  pattern rules, the message shown is \<^verbatim>\<open>An error occurred: \<close> followed by the raw
  message, and no dialog is asked for; for a value that is not an \<^verbatim>\<open>Error\<close> instance the
  message shown is the fixed text for an unexpected error, whatever the value carries, and
  no dialog is asked for.
\<close>

theorem fallback_passthrough:
  "(matches_no_rule (message e) \<longrightarrow>
      classify (ErrorInstance e) = Inr (classified (''An error occurred: '' @ message e) False) \<and>
      str_includes (userFriendlyMessage (classified (''An error occurred: '' @ message e) False))
        (message e)) \<and>
   classify (NonError v) = Inr (classified unexpectedMessage False)"
  by (simp add: classify_message_rules matches_no_rule_def classified_def str_includes_append
      del: append.simps)

theorem fallback_passthrough_witness:
  "matches_no_rule ''Service unavailable'' \<and>
   classify (new_Error ''Service unavailable'')
     = Inr (classified ''An error occurred: Service unavailable'' False)"
proof -
  have l: "toLowerCase ''Service unavailable'' = ''service unavailable''"
    by (simp add: lower_eval toLowerChar_def)
  have m: "matches_no_rule ''Service unavailable''"
    unfolding matches_no_rule_def pattern_defs l by simp
  show ?thesis
    using fallback_passthrough [of "\<lparr>name = ''Error'', message = ''Service unavailable''\<rparr>"] m
    by (simp add: new_Error_def)
qed

section \<open>Properties of the poll loop\<close>

text \<open>
  The loop is unfolded one round at a time: it stops on a finished operation or on the
  poll limit, it goes on after an answer, and it throws the wrapper error after a failed
  status request.
\<close>

declare poll_loop.simps [simp del]

lemma emit_trace [simp]: "trace (emit ev s) = trace s @ [ev]"
  by (simp add: emit_def)

lemma poll_rounds_empty [simp]: "poll_rounds ops k k = []"
  by (simp add: poll_rounds_def)

lemma poll_rounds_step:
  "c < k \<Longrightarrow> poll_rounds ops c k = poll_round (ops c) @ poll_rounds ops (Suc c) k"
  by (simp add: poll_rounds_def upt_conv_Cons)

lemma poll_loop_stop:
  "is_done operation \<or> maxPolls \<le> pollCount \<Longrightarrow>
     poll_loop E operation pollCount s = (Inr (operation, pollCount), s)"
  by (subst poll_loop.simps) auto

lemma poll_loop_continue:
  assumes "\<not> is_done operation" and "pollCount < maxPolls"
      and "getVideosOperation E (Suc pollCount) = Inr operation'"
  shows "poll_loop E operation pollCount s =
           poll_loop E operation' (Suc pollCount)
             (s\<lparr>trace := trace s @ poll_round operation\<rparr>)"
  using assms by (subst poll_loop.simps) (simp add: emit_def poll_round_def)

lemma poll_loop_fail:
  assumes "\<not> is_done operation" and "pollCount < maxPolls"
      and "getVideosOperation E (Suc pollCount) = Inl e"
  shows "poll_loop E operation pollCount s =
           (Inl PollError,
            s\<lparr>trace := trace s @ poll_round operation @
                 [ConsoleError ''Error polling for operation status:'' e]\<rparr>)"
  using assms by (subst poll_loop.simps) (simp add: emit_def poll_round_def)

lemma poll_loop_run:
  assumes "c \<le> k" and "k \<le> maxPolls"
      and "\<forall>j. c < j \<and> j \<le> k \<longrightarrow> getVideosOperation E j = Inr (ops j)"
      and "\<forall>j. c \<le> j \<and> j < k \<longrightarrow> \<not> is_done (ops j)"
  shows "poll_loop E (ops c) c s =
           poll_loop E (ops k) k (s\<lparr>trace := trace s @ poll_rounds ops c k\<rparr>)"
  using assms
proof (induction "k - c" arbitrary: c s)
  case 0
  then show ?case by simp
next
  case (Suc n)
  then have ck: "c < k" by simp
  have nd: "\<not> is_done (ops c)" using Suc.prems ck by simp
  have g: "getVideosOperation E (Suc c) = Inr (ops (Suc c))" using Suc.prems ck by simp
  have step: "poll_loop E (ops c) c s =
                poll_loop E (ops (Suc c)) (Suc c) (s\<lparr>trace := trace s @ poll_round (ops c)\<rparr>)"
    using nd ck Suc.prems(2) g by (intro poll_loop_continue) auto
  have ih: "poll_loop E (ops (Suc c)) (Suc c) (s\<lparr>trace := trace s @ poll_round (ops c)\<rparr>) =
              poll_loop E (ops k) k
                ((s\<lparr>trace := trace s @ poll_round (ops c)\<rparr>)
                   \<lparr>trace := trace (s\<lparr>trace := trace s @ poll_round (ops c)\<rparr>) @
                              poll_rounds ops (Suc c) k\<rparr>)"
    using Suc.hyps(2) Suc.prems ck by (intro Suc.hyps(1)) auto
  show ?case
    unfolding step ih using ck by (simp add: poll_rounds_step)
qed

lemma status_requests_append:
  "status_requests (xs @ ys) = status_requests xs + status_requests ys"
  by (induction xs rule: status_requests.induct) auto

lemma waits_append: "waits (xs @ ys) = waits xs @ waits ys"
  by (induction xs rule: waits.induct) auto

lemma status_requests_rounds: "status_requests (poll_rounds ops c k) = k - c"
proof (induction "k - c" arbitrary: c)
  case 0
  then show ?case by (simp add: poll_rounds_def)
next
  case (Suc n)
  then have "c < k" by simp
  then show ?case
    using Suc.hyps(1) [of "Suc c"] Suc.hyps(2)
    by (simp add: poll_rounds_step status_requests_append poll_round_def)
qed

lemma waits_rounds: "waits (poll_rounds ops c k) = replicate (k - c) 10000"
proof (induction "k - c" arbitrary: c)
  case 0
  then show ?case by (simp add: poll_rounds_def)
next
  case (Suc n)
  then have ck: "c < k" by simp
  then have "k - c = Suc (k - Suc c)" by simp
  then show ?case
    using Suc.hyps(1) [of "Suc c"] Suc.hyps(2) ck
    by (simp add: poll_rounds_step waits_append poll_round_def)
qed

lemma await_completion_done:
  assumes "k \<le> 20"
      and "\<forall>j. 1 \<le> j \<and> j \<le> k \<longrightarrow> getVideosOperation E j = Inr (ops j)"
      and "\<forall>j<k. \<not> is_done (ops j)"
      and "is_done (ops k)"
  shows "await_completion E (ops 0) s =
           (Inr (ops k), s\<lparr>trace := trace s @ poll_rounds ops 0 k\<rparr>)"
proof -
  have "poll_loop E (ops 0) 0 s =
          poll_loop E (ops k) k (s\<lparr>trace := trace s @ poll_rounds ops 0 k\<rparr>)"
    using assms by (intro poll_loop_run) (auto simp: maxPolls_def)
  then show ?thesis
    using assms(4) by (simp add: await_completion_def poll_loop_stop)
qed

lemma await_completion_timeout:
  assumes "\<forall>j. 1 \<le> j \<and> j \<le> 20 \<longrightarrow> getVideosOperation E j = Inr (ops j)"
      and "\<forall>j\<le>20. \<not> is_done (ops j)"
  shows "await_completion E (ops 0) s =
           (Inl TimeoutError, s\<lparr>trace := trace s @ poll_rounds ops 0 20\<rparr>)"
proof -
  have "poll_loop E (ops 0) 0 s =
          poll_loop E (ops 20) 20 (s\<lparr>trace := trace s @ poll_rounds ops 0 20\<rparr>)"
    using assms by (intro poll_loop_run) (auto simp: maxPolls_def)
  then show ?thesis
    using assms(2) by (simp add: await_completion_def poll_loop_stop maxPolls_def)
qed

lemma await_completion_poll_fails:
  assumes "k < 20"
      and "\<forall>j. 1 \<le> j \<and> j \<le> k \<longrightarrow> getVideosOperation E j = Inr (ops j)"
      and "\<forall>j\<le>k. \<not> is_done (ops j)"
      and "getVideosOperation E (Suc k) = Inl e"
  shows "await_completion E (ops 0) s =
           (Inl PollError,
            s\<lparr>trace := trace s @ poll_rounds ops 0 (Suc k) @
                 [ConsoleError ''Error polling for operation status:'' e]\<rparr>)"
proof -
  have run: "poll_loop E (ops 0) 0 s =
          poll_loop E (ops k) k (s\<lparr>trace := trace s @ poll_rounds ops 0 k\<rparr>)"
    using assms by (intro poll_loop_run) (auto simp: maxPolls_def)
  have last: "poll_rounds ops 0 (Suc k) = poll_rounds ops 0 k @ poll_round (ops k)"
    by (simp add: poll_rounds_def)
  have "poll_loop E (ops k) k (s\<lparr>trace := trace s @ poll_rounds ops 0 k\<rparr>) =
          (Inl PollError,
           s\<lparr>trace := trace s @ poll_rounds ops 0 (Suc k) @
                [ConsoleError ''Error polling for operation status:'' e]\<rparr>)"
    using assms by (subst poll_loop_fail [where e = e]) (auto simp: maxPolls_def last)
  then show ?thesis
    using run by (simp add: await_completion_def)
qed

text \<open>
  Claim C1: let \<open>ops 0\<close> be the operation the submission returned and \<open>ops j\<close> the answer
  to the \<open>j\<close>-th status request. If \<open>ops k\<close> is the first finished operation and
  \<open>k \<le> 20\<close>, lines 100 to 120 end normally with \<open>ops k\<close> after exactly \<open>k\<close> status
  requests; if none of \<open>ops 0\<close>, ..., \<open>ops 20\<close> is finished, they make exactly 20 status
  requests and then throw the time-out error. In both cases every status request comes
  right after a wait of 10000 milliseconds.
\<close>

theorem poll_loop_outcome:
  "(\<forall>k\<le>20.
      (\<forall>j. 1 \<le> j \<and> j \<le> k \<longrightarrow> getVideosOperation E j = Inr (ops j)) \<and>
      (\<forall>j<k. \<not> is_done (ops j)) \<and> is_done (ops k) \<longrightarrow>
      await_completion E (ops 0) s =
        (Inr (ops k), s\<lparr>trace := trace s @ poll_rounds ops 0 k\<rparr>) \<and>
      status_requests (poll_rounds ops 0 k) = k \<and>
      waits (poll_rounds ops 0 k) = replicate k 10000) \<and>
   ((\<forall>j. 1 \<le> j \<and> j \<le> 20 \<longrightarrow> getVideosOperation E j = Inr (ops j)) \<and>
    (\<forall>j\<le>20. \<not> is_done (ops j)) \<longrightarrow>
      await_completion E (ops 0) s =
        (Inl TimeoutError, s\<lparr>trace := trace s @ poll_rounds ops 0 20\<rparr>) \<and>
      status_requests (poll_rounds ops 0 20) = 20 \<and>
      waits (poll_rounds ops 0 20) = replicate 20 10000)"
proof (intro conjI allI impI)
  fix k :: nat
  assume k: "k \<le> 20"
    and h: "(\<forall>j. 1 \<le> j \<and> j \<le> k \<longrightarrow> getVideosOperation E j = Inr (ops j)) \<and>
            (\<forall>j<k. \<not> is_done (ops j)) \<and> is_done (ops k)"
  show "await_completion E (ops 0) s =
          (Inr (ops k), s\<lparr>trace := trace s @ poll_rounds ops 0 k\<rparr>)"
    using k h by (intro await_completion_done) auto
  show "status_requests (poll_rounds ops 0 k) = k"
    by (simp add: status_requests_rounds)
  show "waits (poll_rounds ops 0 k) = replicate k 10000"
    by (simp add: waits_rounds)
next
  assume h: "(\<forall>j. 1 \<le> j \<and> j \<le> 20 \<longrightarrow> getVideosOperation E j = Inr (ops j)) \<and>
             (\<forall>j\<le>20. \<not> is_done (ops j))"
  show "await_completion E (ops 0) s =
          (Inl TimeoutError, s\<lparr>trace := trace s @ poll_rounds ops 0 20\<rparr>)"
    using h by (intro await_completion_timeout) auto
  show "status_requests (poll_rounds ops 0 20) = 20"
    by (simp add: status_requests_rounds)
  show "waits (poll_rounds ops 0 20) = replicate 20 10000"
    by (simp add: waits_rounds)
qed

theorem poll_loop_outcome_witness:
  "await_completion slow_env pending blank_page =
     (Inl TimeoutError, blank_page\<lparr>trace := poll_rounds (\<lambda>j. pending) 0 20\<rparr>) \<and>
   status_requests (poll_rounds (\<lambda>j. pending) 0 20) = 20 \<and>
   await_completion
     (slow_env\<lparr>getVideosOperation := (\<lambda>j. Inr (if j = 2 then finished [] else pending))\<rparr>)
     pending blank_page =
     (Inr (finished []),
      blank_page\<lparr>trace := poll_rounds (\<lambda>j. if j = 2 then finished [] else pending) 0 2\<rparr>)"
proof -
  have t: "trace blank_page = []"
    by (simp add: blank_page_def)
  have a: "await_completion slow_env pending blank_page =
             (Inl TimeoutError, blank_page\<lparr>trace := poll_rounds (\<lambda>j. pending) 0 20\<rparr>) \<and>
           status_requests (poll_rounds (\<lambda>j. pending) 0 20) = 20"
    using poll_loop_outcome [of slow_env "\<lambda>j. pending" blank_page] t
    by (simp add: slow_env_def pending_def)
  have b: "await_completion
             (slow_env\<lparr>getVideosOperation := (\<lambda>j. Inr (if j = 2 then finished [] else pending))\<rparr>)
             pending blank_page =
             (Inr (finished []),
              blank_page\<lparr>trace := poll_rounds (\<lambda>j. if j = 2 then finished [] else pending) 0 2\<rparr>)"
    using poll_loop_outcome
            [of "slow_env\<lparr>getVideosOperation := (\<lambda>j. Inr (if j = 2 then finished [] else pending))\<rparr>"
                "\<lambda>j. if j = 2 then finished [] else pending" blank_page,
             THEN conjunct1, rule_format, of 2] t
    by (simp add: slow_env_def pending_def finished_def less_Suc_eq numeral_2_eq_2)
  show ?thesis
    using a b by simp
qed

section \<open>The submitted request and the controls\<close>

text \<open>Only the submission adds a request to the trace; the loops add none.\<close>

lemma requests_append: "requests (xs @ ys) = requests xs @ requests ys"
  by (induction xs rule: requests.induct) auto

lemma requests_concat:
  "(\<And>j. requests (f j) = []) \<Longrightarrow> requests (concat (map f js)) = []"
  by (induction js) (auto simp: requests_append)

lemma requests_rounds [simp]: "requests (poll_rounds ops c k) = []"
  unfolding poll_rounds_def by (rule requests_concat) (simp add: poll_round_def)

lemma poll_loop_submitted: "submitted (snd (poll_loop E operation pollCount s)) = submitted s"
proof (induction E operation pollCount s rule: poll_loop.induct)
  case (1 E operation pollCount s)
  show ?case
  proof (cases "\<not> is_done operation \<and> pollCount < maxPolls")
    case False
    then show ?thesis by (subst poll_loop.simps) auto
  next
    case True
    show ?thesis
    proof (cases "getVideosOperation E (pollCount + 1)")
      case (Inl e)
      then show ?thesis
        using True by (subst poll_loop.simps) (simp add: submitted_def requests_append)
    next
      case (Inr operation')
      have "submitted (snd (poll_loop E operation' (pollCount + 1)
              (emit (GetVideosOperation operation)
                 (emit (Delay 10000) (emit (ConsoleLog ''Waiting for completion'') s))))) =
            submitted s"
        using "1.IH" [OF True refl refl refl Inr]
        by (simp add: submitted_def requests_append)
      then show ?thesis
        using True Inr by (subst poll_loop.simps) simp
    qed
  qed
qed

lemma await_completion_submitted:
  "submitted (snd (await_completion E operation s)) = submitted s"
proof -
  obtain r s' where p: "poll_loop E operation 0 s = (r, s')"
    by (cases "poll_loop E operation 0 s")
  have "submitted s' = submitted s"
    using poll_loop_submitted [of E operation 0 s] p by simp
  then show ?thesis
    using p by (auto simp: await_completion_def split: sum.splits prod.splits)
qed

lemma download_submitted: "submitted (snd (download E apiKey vs i s)) = submitted s"
proof (induction vs arbitrary: i s)
  case Nil
  then show ?case by simp
next
  case (Cons v vs)
  show ?case
    using Cons.IH [unfolded submitted_def]
    by (auto simp: Let_def submitted_def requests_append split: sum.splits)
qed

lemma generateContent_submitted:
  "submitted (snd (generateContent E p img apiKey cfg s)) = submitted s @ [build_params p img cfg]"
proof (cases "generateVideos E (build_params p img cfg)")
  case (Inl e)
  then show ?thesis
    by (simp add: generateContent_def Let_def submitted_def requests_append)
next
  case (Inr operation)
  let ?s1 = "(emit (GenerateVideos (build_params p img cfg)) s)\<lparr>statusEl := InnerText ''Generating...''\<rparr>"
  obtain r s2 where a: "await_completion E operation ?s1 = (r, s2)"
    by (cases "await_completion E operation ?s1")
  have s2: "submitted s2 = submitted s @ [build_params p img cfg]"
    using await_completion_submitted [of E operation ?s1] a
    by (simp add: submitted_def requests_append)
  show ?thesis
  proof (cases r)
    case (Inl e)
    then show ?thesis
      using Inr a s2 by (simp add: generateContent_def Let_def)
  next
    case (Inr operation')
    show ?thesis
    proof (cases "checked_videos operation'")
      case (Inl e)
      then show ?thesis
        using \<open>generateVideos E (build_params p img cfg) = Inr operation\<close> a s2 Inr
        by (simp add: generateContent_def Let_def)
    next
      case (Inr videos)
      have "submitted (snd (download E apiKey videos 0 (s2\<lparr>statusEl := InnerText ''Downloading video...''\<rparr>)))
              = submitted s @ [build_params p img cfg]"
        using s2 by (simp add: download_submitted) (simp add: submitted_def)
      then show ?thesis
        using \<open>generateVideos E (build_params p img cfg) = Inr operation\<close> a
              \<open>r = Inr operation'\<close> Inr
        by (simp add: generateContent_def Let_def)
    qed
  qed
qed

text \<open>
  Claim C5: for every prompt, empty or not, every image text and every configuration,
  \<^verbatim>\<open>generateContent\<close> submits exactly one request, the one of lines 78 to 94; it carries
  the prompt, its \<^verbatim>\<open>numberOfVideos\<close> is 1, and it has an image if and only if the image
  text is there and not empty.
\<close>

theorem submitted_request_shape:
  "submitted (snd (generateContent E p img apiKey cfg s)) = submitted s @ [build_params p img cfg] \<and>
   prompt (build_params p img cfg) = p \<and>
   numberOfVideos (config (build_params p img cfg)) = 1 \<and>
   (image (build_params p img cfg) \<noteq> None \<longleftrightarrow> truthy img)"
proof -
  have "prompt (build_params p img cfg) = p \<and>
        numberOfVideos (config (build_params p img cfg)) = 1 \<and>
        (image (build_params p img cfg) \<noteq> None \<longleftrightarrow> truthy img)"
    by (cases img) (simp_all add: build_params_def Let_def)
  then show ?thesis
    by (simp add: generateContent_submitted)
qed

theorem submitted_request_shape_witness:
  "submitted (snd (generateContent slow_env ''a cat'' (Some ''QUJD'') ''KEY''
                     (read_videoConfig slow_env blank_page) blank_page)) =
     [build_params ''a cat'' (Some ''QUJD'') (read_videoConfig slow_env blank_page)] \<and>
   numberOfVideos (config (build_params ''a cat'' (Some ''QUJD'')
                     (read_videoConfig slow_env blank_page))) = 1 \<and>
   image (build_params ''a cat'' (Some ''QUJD'') (read_videoConfig slow_env blank_page)) \<noteq> None \<and>
   image (build_params ''a cat'' (Some []) (read_videoConfig slow_env blank_page)) = None"
  using submitted_request_shape
          [of slow_env "''a cat''" "Some ''QUJD''" "''KEY''"
              "read_videoConfig slow_env blank_page" blank_page]
        submitted_request_shape
          [of slow_env "''a cat''" "Some []" "''KEY''"
              "read_videoConfig slow_env blank_page" blank_page]
  by (simp add: submitted_def blank_page_def)

text \<open>
  Claim C10: the page an attempt ends with has all six controls enabled, whatever the
  environment does: success, time-out, empty result, any thrown value, and a key dialog
  that fails in the handler. This holds for \<^verbatim>\<open>generate\<close> whenever it gets past its guard
  on the API key, which is when it disables the controls.
\<close>

theorem controls_reenabled:
  "controls_enabled (snd (generate_attempt E apiKey s)) \<and>
   (truthy (API_KEY E) \<longrightarrow> controls_enabled (snd (generate E s)))"
proof -
  have a: "controls_enabled (snd (generate_attempt E k s))" for k
    by (simp add: generate_attempt_def Let_def case_prod_unfold controls_enabled_def
        setControlsDisabled_def)
  show ?thesis
    using a by (cases "API_KEY E") (auto simp: generate_def)
qed

theorem controls_reenabled_witness:
  "truthy (API_KEY slow_env) \<and>
   controls_enabled (snd (generate slow_env blank_page)) \<and>
   controls_enabled (snd (generate_attempt slow_env ''KEY'' blank_page))"
  using controls_reenabled [of slow_env "''KEY''" blank_page]
  by (simp add: slow_env_def)

section \<open>Results, poll failures and the reference image\<close>

lemma generateContent_completed:
  assumes "generateVideos E (build_params p img cfg) = Inr (ops 0)"
      and "k \<le> 20"
      and "\<forall>j. 1 \<le> j \<and> j \<le> k \<longrightarrow> getVideosOperation E j = Inr (ops j)"
      and "\<forall>j<k. \<not> is_done (ops j)"
      and "is_done (ops k)"
  shows "generateContent E p img apiKey cfg s =
           (case checked_videos (ops k) of
              Inl e \<Rightarrow>
                (Inl e,
                 s\<lparr>statusEl := InnerText ''Generating...'',
                   trace := trace s @ GenerateVideos (build_params p img cfg) # poll_rounds ops 0 k\<rparr>)
            | Inr videos \<Rightarrow>
                download E apiKey videos 0
                  (s\<lparr>trace := trace s @ GenerateVideos (build_params p img cfg) # poll_rounds ops 0 k,
                     statusEl := InnerText ''Downloading video...''\<rparr>))"
  unfolding generateContent_def Let_def
  using assms(1) await_completion_done [OF assms(2-5)]
  by (auto simp: emit_def split: sum.splits)

lemma lower_EmptyResult:
  "toLowerCase ''No videos were generated. The prompt may have been blocked.''
     = ''no videos were generated. the prompt may have been blocked.''"
  by (simp add: lower_eval toLowerChar_def)

lemma classify_EmptyResultError:
  "classify EmptyResultError = Inr (classified safetyMessage False)"
proof -
  have c: "\<not> credential_pattern ''No videos were generated. The prompt may have been blocked.''"
    unfolding credential_pattern_def lower_EmptyResult by simp
  have b: "safety_pattern ''No videos were generated. The prompt may have been blocked.''"
    unfolding safety_pattern_def lower_EmptyResult by simp
  show ?thesis
    using c b by (simp add: EmptyResultError_def new_Error_def classify_message_rules)
qed

text \<open>
  Claim C4: when the operation the poll loop ends with is finished and its list of videos
  is absent or empty, \<^verbatim>\<open>generateContent\<close> throws the empty-result error; that error is
  classified as the safety-block message without the dialog flag, and the handler shows
  the message and does not call \<^verbatim>\<open>openApiKeyDialog\<close>.
\<close>

theorem empty_result_blocked:
  assumes "generateVideos E (build_params p img cfg) = Inr (ops 0)"
      and "k \<le> 20"
      and "\<forall>j. 1 \<le> j \<and> j \<le> k \<longrightarrow> getVideosOperation E j = Inr (ops j)"
      and "\<forall>j<k. \<not> is_done (ops j)"
      and "is_done (ops k)"
      and "result_videos (ops k) = None \<or> result_videos (ops k) = Some []"
  shows "generateContent E p img apiKey cfg s =
           (Inl EmptyResultError,
            s\<lparr>statusEl := InnerText ''Generating...'',
              trace := trace s @ GenerateVideos (build_params p img cfg) # poll_rounds ops 0 k\<rparr>) \<and>
         classify EmptyResultError = Inr (classified safetyMessage False) \<and>
         generate_catch E EmptyResultError s' =
           (Inr (),
            showStatusError safetyMessage
              (emit (ConsoleError ''Video generation failed:'' EmptyResultError) s'))"
proof -
  have v: "checked_videos (ops k) = Inl EmptyResultError"
    using assms(6) by (auto simp: checked_videos_def)
  have g: "generateContent E p img apiKey cfg s =
           (Inl EmptyResultError,
            s\<lparr>statusEl := InnerText ''Generating...'',
              trace := trace s @ GenerateVideos (build_params p img cfg) # poll_rounds ops 0 k\<rparr>)"
    using generateContent_completed [OF assms(1-5), of apiKey s] v by simp
  have h: "generate_catch E EmptyResultError s' =
           (Inr (),
            showStatusError safetyMessage
              (emit (ConsoleError ''Video generation failed:'' EmptyResultError) s'))"
    unfolding generate_catch_def Let_def classify_EmptyResultError
    by (simp add: classified_def)
  show ?thesis
    using g h classify_EmptyResultError by simp
qed

theorem empty_result_blocked_witness:
  "generateContent (slow_env\<lparr>generateVideos := (\<lambda>r. Inr (finished []))\<rparr>)
     ''a cat'' None ''KEY'' (read_videoConfig slow_env blank_page) blank_page =
     (Inl EmptyResultError,
      blank_page\<lparr>statusEl := InnerText ''Generating...'',
        trace := [GenerateVideos (build_params ''a cat'' None (read_videoConfig slow_env blank_page))]\<rparr>) \<and>
   classify EmptyResultError = Inr (classified safetyMessage False) \<and>
   generate_catch (slow_env\<lparr>generateVideos := (\<lambda>r. Inr (finished []))\<rparr>)
     EmptyResultError blank_page =
     (Inr (),
      showStatusError safetyMessage
        (emit (ConsoleError ''Video generation failed:'' EmptyResultError) blank_page))"
proof -
  have t: "trace blank_page = []"
    by (simp add: blank_page_def)
  have g: "generateVideos (slow_env\<lparr>generateVideos := (\<lambda>r. Inr (finished []))\<rparr>)
             (build_params ''a cat'' None (read_videoConfig slow_env blank_page))
           = Inr ((\<lambda>j. finished []) 0)"
    by simp
  have r: "result_videos ((\<lambda>j. finished []) 0) = None \<or>
           result_videos ((\<lambda>j. finished []) 0) = Some []"
    by (simp add: result_videos_def finished_def)
  have d: "is_done ((\<lambda>j. finished []) 0)"
    by (simp add: finished_def)
  show ?thesis
    using empty_result_blocked
            [of "slow_env\<lparr>generateVideos := (\<lambda>r. Inr (finished []))\<rparr>"
                "''a cat''" None "read_videoConfig slow_env blank_page"
                "\<lambda>j. finished []" 0 "''KEY''" blank_page blank_page,
             OF g _ _ _ d r] t
    by simp
qed

text \<open>
  Claim C6: when the status requests 1 to \<open>k\<close> answer with unfinished operations and
  request \<open>k + 1\<close>, one of the 20 the loop may make, throws \<open>e\<close>, then
  \<^verbatim>\<open>generateContent\<close> throws the fixed wrapper error, whatever \<open>e\<close> is, and it has made
  exactly \<open>k + 1\<close> status requests: the failed one is the last event but for the console
  message.
\<close>

theorem poll_failure_fatal:
  assumes "generateVideos E (build_params p img cfg) = Inr (ops 0)"
      and "k < 20"
      and "\<forall>j. 1 \<le> j \<and> j \<le> k \<longrightarrow> getVideosOperation E j = Inr (ops j)"
      and "\<forall>j\<le>k. \<not> is_done (ops j)"
      and "getVideosOperation E (Suc k) = Inl e"
  shows "generateContent E p img apiKey cfg s =
           (Inl PollError,
            s\<lparr>statusEl := InnerText ''Generating...'',
              trace := trace s @ GenerateVideos (build_params p img cfg) #
                       poll_rounds ops 0 (Suc k) @
                       [ConsoleError ''Error polling for operation status:'' e]\<rparr>) \<and>
         status_requests (poll_rounds ops 0 (Suc k)) = Suc k"
proof -
  have "generateContent E p img apiKey cfg s =
           (Inl PollError,
            s\<lparr>statusEl := InnerText ''Generating...'',
              trace := trace s @ GenerateVideos (build_params p img cfg) #
                       poll_rounds ops 0 (Suc k) @
                       [ConsoleError ''Error polling for operation status:'' e]\<rparr>)"
    unfolding generateContent_def Let_def
    using assms(1) await_completion_poll_fails [OF assms(2-5)]
    by (simp add: emit_def)
  then show ?thesis
    by (simp add: status_requests_rounds)
qed

theorem poll_failure_fatal_witness:
  "generateContent
     (slow_env\<lparr>getVideosOperation :=
                 (\<lambda>j. if j = 3 then Inl (NonError ''offline'') else Inr pending)\<rparr>)
     ''a cat'' None ''KEY'' (read_videoConfig slow_env blank_page) blank_page =
     (Inl PollError,
      blank_page\<lparr>statusEl := InnerText ''Generating...'',
        trace := GenerateVideos (build_params ''a cat'' None (read_videoConfig slow_env blank_page)) #
                 poll_rounds (\<lambda>j. pending) 0 3 @
                 [ConsoleError ''Error polling for operation status:'' (NonError ''offline'')]\<rparr>) \<and>
   status_requests (poll_rounds (\<lambda>j. pending) 0 3) = 3"
proof -
  have t: "trace blank_page = []"
    by (simp add: blank_page_def)
  show ?thesis
    using poll_failure_fatal
            [of "slow_env\<lparr>getVideosOperation :=
                   (\<lambda>j. if j = 3 then Inl (NonError ''offline'') else Inr pending)\<rparr>"
                "''a cat''" None "read_videoConfig slow_env blank_page"
                "\<lambda>j. pending" 2 "NonError ''offline''" "''KEY''" blank_page] t
    by (simp add: slow_env_def pending_def numeral_3_eq_3)
qed

lemma generate_catch_submitted: "submitted (snd (generate_catch E e s)) = submitted s"
  by (auto simp: generate_catch_def Let_def openApiKeyDialog_def showStatusError_def
      submitted_def requests_append split: option.splits sum.splits classify_error.splits)

lemma generate_attempt_submitted:
  "submitted (snd (generate_attempt E apiKey s)) =
     submitted s @ [build_params (promptVar s) (base64data s) (read_videoConfig E s)]"
proof -
  let ?s3 = "setControlsDisabled True
               ((s\<lparr>statusEl := InnerText ''Initializing video generation...''\<rparr>)
                  \<lparr>videoContainer_display := ''none''\<rparr>)"
  let ?r = "build_params (promptVar s) (base64data s) (read_videoConfig E s)"
  obtain r s' where g:
    "generateContent E (promptVar s) (base64data s) apiKey (read_videoConfig E s) ?s3 = (r, s')"
    by (cases "generateContent E (promptVar s) (base64data s) apiKey (read_videoConfig E s) ?s3")
  have "submitted ?s3 = submitted s"
    by (simp add: submitted_def setControlsDisabled_def)
  then have s': "submitted s' = submitted s @ [?r]"
    using generateContent_submitted
            [of E "promptVar s" "base64data s" apiKey "read_videoConfig E s" ?s3] g
    by simp
  have p: "promptVar ?s3 = promptVar s" "base64data ?s3 = base64data s"
    by (simp_all add: setControlsDisabled_def)
  show ?thesis
  proof (cases r)
    case (Inl e)
    have "submitted (snd (generate_catch E e s')) = submitted s @ [?r]"
      using s' by (simp add: generate_catch_submitted)
    then show ?thesis
      unfolding generate_attempt_def Let_def p g Inl
      by (simp add: case_prod_unfold submitted_def setControlsDisabled_def)
  next
    case (Inr u)
    show ?thesis
      unfolding generate_attempt_def Let_def p g Inr
      using s' by (simp add: submitted_def setControlsDisabled_def)
  qed
qed

lemma split_no_sep: "sep \<notin> set xs \<Longrightarrow> split sep xs = [xs]"
  by (induction xs) auto

lemma split_append_sep: "sep \<notin> set xs \<Longrightarrow> split sep (xs @ sep # ys) = xs # split sep ys"
  by (induction xs) auto

lemma blobToBase64_payload:
  assumes "CHR '','' \<notin> set (file_type f)" and "CHR '','' \<notin> set (file_base64 f)"
  shows "blobToBase64 f = Some (file_base64 f)"
proof -
  have u: "readAsDataURL f = (''data:'' @ file_type f @ '';base64'') @ CHR '','' # file_base64 f"
    by (simp add: readAsDataURL_def)
  have n: "CHR '','' \<notin> set (''data:'' @ file_type f @ '';base64'')"
    using assms(1) by simp
  have "split CHR '','' (readAsDataURL f) =
          (''data:'' @ file_type f @ '';base64'') # split CHR '','' (file_base64 f)"
    unfolding u using n by (rule split_append_sep)
  also have "split CHR '','' (file_base64 f) = [file_base64 f]"
    using assms(2) by (rule split_no_sep)
  finally show ?thesis
    by (simp add: blobToBase64_def)
qed

lemma build_params_mime:
  "image (build_params p img cfg) = Some i \<Longrightarrow> mimeType i = ''image/png''"
  by (cases img) (auto simp: build_params_def Let_def split: if_splits)

text \<open>
  Claim C9: after any file has been chosen, of any MIME type, the request an attempt
  submits declares \<^verbatim>\<open>image/png\<close> for its image whenever it has one; when the type and
  the Base64 text of the file contain no comma and the text is not empty, the image is
  the Base64 text with \<^verbatim>\<open>image/png\<close>, so that the type of the file is nowhere in it.
\<close>

theorem reference_image_declared_png:
  "(\<forall>i. image (last (submitted (snd (generate_attempt E apiKey (upload_change (Some f) s)))))
          = Some i \<longrightarrow> mimeType i = ''image/png'') \<and>
   (CHR '','' \<notin> set (file_type f) \<and> CHR '','' \<notin> set (file_base64 f) \<and> file_base64 f \<noteq> [] \<longrightarrow>
      image (last (submitted (snd (generate_attempt E apiKey (upload_change (Some f) s)))))
        = Some \<lparr>imageBytes = file_base64 f, mimeType = ''image/png''\<rparr>)"
proof -
  have b: "base64data (upload_change (Some f) s) = blobToBase64 f"
    by (simp add: upload_change_def Let_def)
  show ?thesis
    unfolding generate_attempt_submitted b
    by (auto simp: build_params_mime blobToBase64_payload build_params_def Let_def)
qed

theorem reference_image_declared_png_witness:
  "image (last (submitted (snd (generate_attempt slow_env ''KEY''
      (upload_change
         (Some \<lparr>file_name = ''cat.jpg'', file_type = ''image/jpeg'', file_base64 = ''QUJD''\<rparr>)
         blank_page)))))
     = Some \<lparr>imageBytes = ''QUJD'', mimeType = ''image/png''\<rparr>"
  using reference_image_declared_png
          [of slow_env "''KEY''"
              "\<lparr>file_name = ''cat.jpg'', file_type = ''image/jpeg'', file_base64 = ''QUJD''\<rparr>"
              blank_page]
  by simp

end
